theory Spec2Isabelle
  imports Complex_Main
begin

section \<open>Airport ground operations (src/airport.py)\<close>

text \<open>
  A shallow embedding of the resource-allocation and flight-state-machine core of
  \<^verbatim>\<open>src/airport.py\<close>. Python objects are mutable and shared by reference: an
  \<^verbatim>\<open>Airport\<close> holds lists of references to \<^verbatim>\<open>Gate\<close>, \<^verbatim>\<open>Runway\<close> and
  \<^verbatim>\<open>Flight\<close> objects and its methods mutate those objects in place. The model
  therefore keeps an explicit store (one map from references to objects per class) and the
  containers hold references. A method of a single object takes the object and returns the
  outcome together with the object as the call leaves it; a method of the airport takes the
  store and returns the outcome together with the store as the call leaves it. An exception
  is the \<open>Inl\<close> branch of the outcome.
\<close>

subsection \<open>Enumerations (lines 16-33)\<close>

datatype FlightStatus = PLANNED | BOARDING | READY | TAXI | AIRBORNE | LANDED | CANCELLED

datatype RunwayStatus = FREE | IN_USE | MAINTENANCE

datatype EngineType = JET | TURBOPROP | PISTON

text \<open>\<^verbatim>\<open>status.name\<close> of a \<^verbatim>\<open>FlightStatus\<close> member.\<close>

fun status_name :: "FlightStatus \<Rightarrow> string" where
  "status_name PLANNED = ''PLANNED''"
| "status_name BOARDING = ''BOARDING''"
| "status_name READY = ''READY''"
| "status_name TAXI = ''TAXI''"
| "status_name AIRBORNE = ''AIRBORNE''"
| "status_name LANDED = ''LANDED''"
| "status_name CANCELLED = ''CANCELLED''"

subsection \<open>Exceptions (lines 39-55 and the built-in ones the code raises)\<close>

text \<open>
  One constructor per exception class that the modelled code can raise, carrying the message.
  \<open>ValueError\<close> and \<open>OverflowError\<close> are Python's built-in classes; the other five are
  the subclasses of \<^verbatim>\<open>AirportError\<close> declared in the source. A character of a message
  is its code point (all are below 256), so \<open>CHR 0xFC\<close> is u-umlaut, \<open>CHR 0xF6\<close>
  o-umlaut and \<open>CHR 0xE4\<close> a-umlaut.
\<close>

datatype error =
    ValueError string
  | OverflowError string
  | CapacityExceededError string
  | GateNotAvailableError string
  | RunwayNotAvailableError string
  | FlightNotFoundError string
  | SchedulingError string

text \<open>\<^verbatim>\<open>type(e).__name__\<close>: the class of a raised exception.\<close>

fun exception_class :: "error \<Rightarrow> string" where
  "exception_class (ValueError _) = ''ValueError''"
| "exception_class (OverflowError _) = ''OverflowError''"
| "exception_class (CapacityExceededError _) = ''CapacityExceededError''"
| "exception_class (GateNotAvailableError _) = ''GateNotAvailableError''"
| "exception_class (RunwayNotAvailableError _) = ''RunwayNotAvailableError''"
| "exception_class (FlightNotFoundError _) = ''FlightNotFoundError''"
| "exception_class (SchedulingError _) = ''SchedulingError''"

text \<open>The message of a raised exception (\<^verbatim>\<open>str(e)\<close>).\<close>

fun message :: "error \<Rightarrow> string" where
  "message (ValueError m) = m"
| "message (OverflowError m) = m"
| "message (CapacityExceededError m) = m"
| "message (GateNotAvailableError m) = m"
| "message (RunwayNotAvailableError m) = m"
| "message (FlightNotFoundError m) = m"
| "message (SchedulingError m) = m"

subsection \<open>Numbers and their formatting\<close>

text \<open>
  A Python \<^verbatim>\<open>float\<close> field. Every finite float (and every int passed where a float is
  annotated) is a rational number, so a finite value is carried as a rational; the three
  special values are separate. No floating-point arithmetic is modelled: the only operation
  the modelled code applies to such a field is \<^verbatim>\<open>int(x)\<close>, which is exact.
\<close>

datatype pyfloat = Finite rat | PosInf | NegInf | NaN

text \<open>\<^verbatim>\<open>int(x)\<close> truncates towards zero and raises on the special values.\<close>

definition trunc :: "rat \<Rightarrow> int" where
  "trunc q = (if 0 \<le> q then \<lfloor>q\<rfloor> else \<lceil>q\<rceil>)"

fun py_int :: "pyfloat \<Rightarrow> error + int" where
  "py_int (Finite q) = Inr (trunc q)"
| "py_int PosInf = Inl (OverflowError ''cannot convert float infinity to integer'')"
| "py_int NegInf = Inl (OverflowError ''cannot convert float infinity to integer'')"
| "py_int NaN = Inl (ValueError ''cannot convert float NaN to integer'')"

text \<open>The decimal digits of an integer, as an f-string formats it.\<close>

fun digits :: "nat \<Rightarrow> string" where
  "digits n =
     (if n < 10 then [char_of (48 + n)] else digits (n div 10) @ [char_of (48 + n mod 10)])"

definition str_int :: "int \<Rightarrow> string" where
  "str_int i = (if i < 0 then ''-'' @ digits (nat (- i)) else digits (nat i))"

subsection \<open>Aircraft (lines 63-132)\<close>

text \<open>
  The fields of the abstract base class, and the two concrete subclasses as the two
  constructors of a datatype. An aircraft is never mutated after construction, so a flight
  carries it by value.
\<close>

record AircraftBase =
  model :: string
  empty_weight_kg :: pyfloat
  max_takeoff_weight_kg :: pyfloat
  engine_type :: EngineType
  registration :: string
  id :: int

datatype Aircraft =
    PassengerAircraft AircraftBase (seat_rows: int) (seats_per_row: int)
      (fuel_capacity_l: pyfloat) (avg_consumption_l_per_100km: pyfloat)
  | CargoAircraft AircraftBase (cargo_volume_m3: pyfloat) (max_payload_kg: pyfloat)
      (fuel_capacity_l: pyfloat) (efficiency_factor: pyfloat)

text \<open>
  The \<^verbatim>\<open>capacity\<close> property (lines 108-110 and 124-127). Reading it on a cargo
  aircraft evaluates \<^verbatim>\<open>int(self.max_payload_kg)\<close>, which can raise.
\<close>

fun capacity :: "Aircraft \<Rightarrow> error + int" where
  "capacity (PassengerAircraft b rows per_row fuel cons) = Inr (rows * per_row)"
| "capacity (CargoAircraft b vol payload fuel eff) = py_int payload"

text \<open>\<^verbatim>\<open>isinstance(a, PassengerAircraft)\<close>.\<close>

fun is_PassengerAircraft :: "Aircraft \<Rightarrow> bool" where
  "is_PassengerAircraft (PassengerAircraft b rows per_row fuel cons) = True"
| "is_PassengerAircraft (CargoAircraft b vol payload fuel eff) = False"

text \<open>
  \<^verbatim>\<open>hasattr(a, "capacity")\<close> reads the property: it is \<^verbatim>\<open>True\<close> for every
  aircraft whose property returns, and an exception other than \<^verbatim>\<open>AttributeError\<close>
  raised by the property propagates.
\<close>

definition hasattr_capacity :: "Aircraft \<Rightarrow> error + bool" where
  "hasattr_capacity a = (case capacity a of Inl e \<Rightarrow> Inl e | Inr c \<Rightarrow> Inr True)"

subsection \<open>Gate (lines 141-160)\<close>

record Gate =
  name :: string
  max_wingspan_m :: pyfloat
  occupied_by :: "int option"
  id :: int

definition Gate_is_free :: "Gate \<Rightarrow> bool" where
  "Gate_is_free self \<longleftrightarrow> Gate.occupied_by self = None"

definition Gate_assign :: "Gate \<Rightarrow> int \<Rightarrow> (error + unit) \<times> Gate" where
  "Gate_assign self flight_id =
     (if \<not> Gate_is_free self
      then (Inl (ValueError (''Gate '' @ Gate.name self @ '' ist belegt.'')), self)
      else (Inr (), self\<lparr>Gate.occupied_by := Some flight_id\<rparr>))"

definition Gate_release :: "Gate \<Rightarrow> Gate" where
  "Gate_release self = self\<lparr>Gate.occupied_by := None\<rparr>"

subsection \<open>Runway (lines 162-184)\<close>

record Runway =
  name :: string
  length_m :: int
  status :: RunwayStatus
  current_flight :: "int option"
  id :: int

definition Runway_is_available :: "Runway \<Rightarrow> bool" where
  "Runway_is_available self \<longleftrightarrow>
     Runway.status self = FREE \<and> Runway.current_flight self = None"

definition Runway_occupy :: "Runway \<Rightarrow> int \<Rightarrow> (error + unit) \<times> Runway" where
  "Runway_occupy self flight_id =
     (if \<not> Runway_is_available self
      then (Inl (ValueError (''Piste '' @ Runway.name self @ '' nicht verf'' @ [CHR 0xFC] @ ''gbar.'')),
            self)
      else (Inr (), self\<lparr>Runway.current_flight := Some flight_id, Runway.status := IN_USE\<rparr>))"

definition Runway_release :: "Runway \<Rightarrow> Runway" where
  "Runway_release self = self\<lparr>Runway.current_flight := None, Runway.status := FREE\<rparr>"

text \<open>The invariant the specification states for a runway.\<close>

definition runway_inv :: "Runway \<Rightarrow> bool" where
  "runway_inv r \<longleftrightarrow> (Runway.status r = IN_USE) = (Runway.current_flight r \<noteq> None)"

subsection \<open>Flight (lines 190-228)\<close>

record Flight =
  flight_number :: string
  origin :: string
  destination :: string
  aircraft :: Aircraft
  planned_departure :: string
  planned_arrival :: string
  status :: FlightStatus
  gate_id :: "int option"
  runway_id :: "int option"
  passengers_checked_in :: int
  cargo_loaded_kg :: pyfloat
  id :: int

definition Flight_can_board :: "Flight \<Rightarrow> bool" where
  "Flight_can_board self \<longleftrightarrow>
     Flight.status self = BOARDING \<and> is_PassengerAircraft (Flight.aircraft self)"

definition Flight_set_status :: "Flight \<Rightarrow> FlightStatus \<Rightarrow> Flight" where
  "Flight_set_status self new_status = self\<lparr>Flight.status := new_status\<rparr>"

text \<open>
  \<^verbatim>\<open>board_passengers\<close> (lines 214-224). The checks come in the source's order: the
  aircraft class, the status, the capacity. The property \<^verbatim>\<open>self.aircraft.capacity\<close>
  is read twice, before and after the assignment to \<^verbatim>\<open>passengers_checked_in\<close>.
\<close>

definition Flight_board_passengers :: "Flight \<Rightarrow> int \<Rightarrow> (error + unit) \<times> Flight" where
  "Flight_board_passengers self count =
     (if \<not> is_PassengerAircraft (Flight.aircraft self)
      then (Inl (ValueError (''Nur Passagiermaschinen k'' @ [CHR 0xF6] @ ''nnen Passagiere boarden.'')),
            self)
      else if Flight.status self \<notin> {BOARDING, PLANNED}
      then (Inl (ValueError (''Boarding nicht m'' @ [CHR 0xF6] @ ''glich im Status ''
                   @ status_name (Flight.status self))), self)
      else
        let new_total = Flight.passengers_checked_in self + count in
        (case capacity (Flight.aircraft self) of
           Inl e \<Rightarrow> (Inl e, self)
         | Inr cap \<Rightarrow>
             if new_total > cap
             then (Inl (CapacityExceededError
                     (''Kapazit'' @ [CHR 0xE4] @ ''t '' @ [CHR 0xFC] @ ''berschritten.'')), self)
             else
               let self1 = self\<lparr>Flight.passengers_checked_in := new_total\<rparr> in
               (case capacity (Flight.aircraft self1) of
                  Inl e \<Rightarrow> (Inl e, self1)
                | Inr cap1 \<Rightarrow>
                    if Flight.passengers_checked_in self1 = cap1
                    then (Inr (), self1\<lparr>Flight.status := READY\<rparr>)
                    else (Inr (), self1))))"

subsection \<open>The object store\<close>

text \<open>
  A reference is an address; the store maps every address of a class to the object there.
  A Python reference always points to an object, so the maps are total.
\<close>

type_synonym ref = nat

record Heap =
  gate_at :: "ref \<Rightarrow> Gate"
  runway_at :: "ref \<Rightarrow> Runway"
  flight_at :: "ref \<Rightarrow> Flight"

definition put_gate :: "ref \<Rightarrow> Gate \<Rightarrow> Heap \<Rightarrow> Heap" where
  "put_gate g v h = h\<lparr>gate_at := (gate_at h)(g := v)\<rparr>"

definition put_runway :: "ref \<Rightarrow> Runway \<Rightarrow> Heap \<Rightarrow> Heap" where
  "put_runway r v h = h\<lparr>runway_at := (runway_at h)(r := v)\<rparr>"

definition put_flight :: "ref \<Rightarrow> Flight \<Rightarrow> Heap \<Rightarrow> Heap" where
  "put_flight f v h = h\<lparr>flight_at := (flight_at h)(f := v)\<rparr>"

subsection \<open>Schedule and SimpleScheduler (lines 237-272)\<close>

text \<open>
  The dict \<^verbatim>\<open>flights\<close> keeps its entries in insertion order; it is modelled as the
  list of its (key, reference) entries in that order.
\<close>

record Schedule =
  flights :: "(int \<times> ref) list"

definition Schedule_add_flight :: "Schedule \<Rightarrow> ref \<Rightarrow> Heap \<Rightarrow> (error + unit) \<times> Schedule" where
  "Schedule_add_flight self flight h =
     (if Flight.id (flight_at h flight) \<in> fst ` set (Schedule.flights self)
      then (Inl (SchedulingError ''Flug-ID bereits vorhanden.''), self)
      else (Inr (), self\<lparr>Schedule.flights :=
              Schedule.flights self @ [(Flight.id (flight_at h flight), flight)]\<rparr>))"

definition Schedule_remove_flight :: "Schedule \<Rightarrow> int \<Rightarrow> (error + unit) \<times> Schedule" where
  "Schedule_remove_flight self flight_id =
     (if flight_id \<notin> fst ` set (Schedule.flights self)
      then (Inl (FlightNotFoundError ''Flug nicht gefunden.''), self)
      else (Inr (), self\<lparr>Schedule.flights :=
              filter (\<lambda>kv. fst kv \<noteq> flight_id) (Schedule.flights self)\<rparr>))"

definition Schedule_all :: "Schedule \<Rightarrow> ref list" where
  "Schedule_all self = map snd (Schedule.flights self)"

text \<open>
  The loop of \<^verbatim>\<open>auto_ready_if_boarded\<close> (lines 269-272) over the list that
  \<^verbatim>\<open>self.schedule.all()\<close> returned. An exception leaves the flights promoted so far
  promoted.
\<close>

fun auto_ready_loop :: "ref list \<Rightarrow> Heap \<Rightarrow> (error + unit) \<times> Heap" where
  "auto_ready_loop [] h = (Inr (), h)"
| "auto_ready_loop (f # fs) h =
     (if Flight.status (flight_at h f) = BOARDING
      then (case hasattr_capacity (Flight.aircraft (flight_at h f)) of
              Inl e \<Rightarrow> (Inl e, h)
            | Inr has \<Rightarrow>
                if has
                then (case capacity (Flight.aircraft (flight_at h f)) of
                        Inl e \<Rightarrow> (Inl e, h)
                      | Inr cap \<Rightarrow>
                          if Flight.passengers_checked_in (flight_at h f) = cap
                          then auto_ready_loop fs
                                 (put_flight f (Flight_set_status (flight_at h f) READY) h)
                          else auto_ready_loop fs h)
                else auto_ready_loop fs h)
      else auto_ready_loop fs h)"

definition auto_ready_if_boarded :: "Schedule \<Rightarrow> Heap \<Rightarrow> (error + unit) \<times> Heap" where
  "auto_ready_if_boarded schedule h = auto_ready_loop (Schedule_all schedule) h"

subsection \<open>Airport (lines 278-352)\<close>

record Airport =
  name :: string
  gates :: "ref list"
  runways :: "ref list"
  flights :: "ref list"

definition Airport_add_gate :: "Airport \<Rightarrow> ref \<Rightarrow> Airport" where
  "Airport_add_gate self gate = self\<lparr>Airport.gates := Airport.gates self @ [gate]\<rparr>"

definition Airport_add_runway :: "Airport \<Rightarrow> ref \<Rightarrow> Airport" where
  "Airport_add_runway self runway = self\<lparr>Airport.runways := Airport.runways self @ [runway]\<rparr>"

definition Airport_add_flight :: "Airport \<Rightarrow> ref \<Rightarrow> Airport" where
  "Airport_add_flight self flight = self\<lparr>Airport.flights := Airport.flights self @ [flight]\<rparr>"

text \<open>
  A \<^verbatim>\<open>for x in xs: if p(x): ...; return\<close> loop acts on the first element that
  satisfies the test, which is \<^const>\<open>List.find\<close>; the loops below do not change the store
  before that element is found.
\<close>

definition Airport_find_flight :: "Airport \<Rightarrow> int \<Rightarrow> Heap \<Rightarrow> error + ref" where
  "Airport_find_flight self flight_id h =
     (case List.find (\<lambda>f. Flight.id (flight_at h f) = flight_id) (Airport.flights self) of
        Some f \<Rightarrow> Inr f
      | None \<Rightarrow> Inl (FlightNotFoundError (''Flug '' @ str_int flight_id @ '' nicht gefunden.'')))"

definition Airport_assign_gate :: "Airport \<Rightarrow> int \<Rightarrow> Heap \<Rightarrow> (error + ref) \<times> Heap" where
  "Airport_assign_gate self flight_id h =
     (case Airport_find_flight self flight_id h of
        Inl e \<Rightarrow> (Inl e, h)
      | Inr flight \<Rightarrow>
          (case List.find (\<lambda>g. Gate_is_free (gate_at h g)) (Airport.gates self) of
             None \<Rightarrow> (Inl (GateNotAvailableError ''Kein Gate frei.''), h)
           | Some g \<Rightarrow>
               (case Gate_assign (gate_at h g) flight_id of
                  (Inl e, g') \<Rightarrow> (Inl e, put_gate g g' h)
                | (Inr u, g') \<Rightarrow>
                    let h1 = put_gate g g' h;
                        h2 = put_flight flight
                               ((flight_at h1 flight)\<lparr>Flight.gate_id := Some (Gate.id (gate_at h1 g))\<rparr>) h1
                    in (Inr g, h2))))"

definition Airport_release_gate :: "Airport \<Rightarrow> int \<Rightarrow> Heap \<Rightarrow> (error + unit) \<times> Heap" where
  "Airport_release_gate self flight_id h =
     (case Airport_find_flight self flight_id h of
        Inl e \<Rightarrow> (Inl e, h)
      | Inr flight \<Rightarrow>
          if Flight.gate_id (flight_at h flight) = None then (Inr (), h)
          else
            (case List.find (\<lambda>g. Some (Gate.id (gate_at h g)) = Flight.gate_id (flight_at h flight))
                    (Airport.gates self) of
               None \<Rightarrow> (Inr (), h)
             | Some g \<Rightarrow>
                 let h1 = put_gate g (Gate_release (gate_at h g)) h;
                     h2 = put_flight flight ((flight_at h1 flight)\<lparr>Flight.gate_id := None\<rparr>) h1
                 in (Inr (), h2)))"

definition Airport_assign_runway_for_departure ::
    "Airport \<Rightarrow> int \<Rightarrow> Heap \<Rightarrow> (error + ref) \<times> Heap" where
  "Airport_assign_runway_for_departure self flight_id h =
     (case Airport_find_flight self flight_id h of
        Inl e \<Rightarrow> (Inl e, h)
      | Inr flight \<Rightarrow>
          (case List.find (\<lambda>r. Runway_is_available (runway_at h r)) (Airport.runways self) of
             None \<Rightarrow> (Inl (RunwayNotAvailableError ''Keine Piste frei.''), h)
           | Some r \<Rightarrow>
               (case Runway_occupy (runway_at h r) flight_id of
                  (Inl e, r') \<Rightarrow> (Inl e, put_runway r r' h)
                | (Inr u, r') \<Rightarrow>
                    let h1 = put_runway r r' h;
                        h2 = put_flight flight
                               ((flight_at h1 flight)\<lparr>Flight.runway_id := Some (Runway.id (runway_at h1 r))\<rparr>) h1;
                        h3 = put_flight flight (Flight_set_status (flight_at h2 flight) TAXI) h2
                    in (Inr r, h3))))"

definition Airport_depart :: "Airport \<Rightarrow> int \<Rightarrow> Heap \<Rightarrow> (error + unit) \<times> Heap" where
  "Airport_depart self flight_id h =
     (case Airport_find_flight self flight_id h of
        Inl e \<Rightarrow> (Inl e, h)
      | Inr flight \<Rightarrow>
          if Flight.status (flight_at h flight) \<notin> {READY, TAXI}
          then (Inl (ValueError ''Flug nicht abflugbereit.''), h)
          else if Flight.runway_id (flight_at h flight) = None
          then (Inl (ValueError ''Keine Piste zugewiesen.''), h)
          else
            let h1 = put_flight flight (Flight_set_status (flight_at h flight) AIRBORNE) h;
                h2 = (case List.find
                             (\<lambda>r. Some (Runway.id (runway_at h1 r)) = Flight.runway_id (flight_at h1 flight))
                             (Airport.runways self) of
                        None \<Rightarrow> h1
                      | Some r \<Rightarrow>
                          let h1a = put_runway r (Runway_release (runway_at h1 r)) h1
                          in put_flight flight ((flight_at h1a flight)\<lparr>Flight.runway_id := None\<rparr>) h1a)
            in Airport_release_gate self flight_id h2)"

definition Airport_arrive :: "Airport \<Rightarrow> int \<Rightarrow> Heap \<Rightarrow> (error + unit) \<times> Heap" where
  "Airport_arrive self flight_id h =
     (case Airport_find_flight self flight_id h of
        Inl e \<Rightarrow> (Inl e, h)
      | Inr flight \<Rightarrow>
          if Flight.status (flight_at h flight) \<noteq> AIRBORNE
          then (Inl (ValueError ''Flug nicht in der Luft.''), h)
          else (Inr (), put_flight flight (Flight_set_status (flight_at h flight) LANDED) h))"

subsection \<open>The demo airport (lines 358-413)\<close>

text \<open>
  The objects that \<^verbatim>\<open>build_demo_airport\<close> constructs, with the ids the counters
  issue in a fresh process (each counter starts at 1), and the store that holds them: the
  gates A1 and A2 at the gate addresses 0 and 1, the two runways at the runway addresses 0
  and 1, the two flights at the flight addresses 0 and 1.
\<close>

definition a1 :: Aircraft where
  "a1 = PassengerAircraft
          \<lparr>model = ''A320neo'', empty_weight_kg = Finite 43000,
           max_takeoff_weight_kg = Finite 79000, engine_type = JET,
           registration = ''D-AIAB'', AircraftBase.id = 1\<rparr>
          30 6 (Finite 19000) (Finite 24)"

definition a2 :: Aircraft where
  "a2 = CargoAircraft
          \<lparr>model = ''B747F'', empty_weight_kg = Finite 180000,
           max_takeoff_weight_kg = Finite 396000, engine_type = JET,
           registration = ''D-CARG'', AircraftBase.id = 2\<rparr>
          (Finite 700) (Finite 130000) (Finite 183000) (Finite (85 / 100))"

definition gate_A1 :: Gate where
  "gate_A1 = \<lparr>Gate.name = ''A1'', max_wingspan_m = Finite 60, occupied_by = None, Gate.id = 1\<rparr>"

definition gate_A2 :: Gate where
  "gate_A2 = \<lparr>Gate.name = ''A2'', max_wingspan_m = Finite 52, occupied_by = None, Gate.id = 2\<rparr>"

definition runway_09L :: Runway where
  "runway_09L = \<lparr>Runway.name = ''09L/27R'', length_m = 3800, Runway.status = FREE,
                  current_flight = None, Runway.id = 1\<rparr>"

definition runway_09R :: Runway where
  "runway_09R = \<lparr>Runway.name = ''09R/27L'', length_m = 3650, Runway.status = FREE,
                  current_flight = None, Runway.id = 2\<rparr>"

definition f1 :: Flight where
  "f1 = \<lparr>flight_number = ''AB123'', origin = ''DEMO'', destination = ''LHR'', aircraft = a1,
          planned_departure = ''2025-09-08 09:00'', planned_arrival = ''2025-09-08 10:15'',
          Flight.status = PLANNED, gate_id = None, runway_id = None, passengers_checked_in = 0,
          cargo_loaded_kg = Finite 0, Flight.id = 1\<rparr>"

definition f2 :: Flight where
  "f2 = \<lparr>flight_number = ''CG900'', origin = ''DEMO'', destination = ''JFK'', aircraft = a2,
          planned_departure = ''2025-09-08 11:00'', planned_arrival = ''2025-09-08 17:30'',
          Flight.status = PLANNED, gate_id = None, runway_id = None, passengers_checked_in = 0,
          cargo_loaded_kg = Finite 0, Flight.id = 2\<rparr>"

definition demo_heap :: Heap where
  "demo_heap =
     \<lparr>gate_at = (\<lambda>r. undefined)(0 := gate_A1, 1 := gate_A2),
      runway_at = (\<lambda>r. undefined)(0 := runway_09L, 1 := runway_09R),
      flight_at = (\<lambda>r. undefined)(0 := f1, 1 := f2)\<rparr>"

definition build_demo_airport :: Airport where
  "build_demo_airport =
     Airport_add_flight
       (Airport_add_flight
          (Airport_add_runway
             (Airport_add_runway
                (Airport_add_gate
                   (Airport_add_gate
                      \<lparr>Airport.name = ''Demo International'', gates = [], runways = [], Airport.flights = []\<rparr>
                      0)
                   1)
                0)
             1)
          0)
       1"

subsection \<open>Further states of the demo airport\<close>

text \<open>The demo airport with its first runway closed for maintenance.\<close>

definition maintenance_heap :: Heap where
  "maintenance_heap = put_runway 0 (runway_09L\<lparr>Runway.status := MAINTENANCE\<rparr>) demo_heap"

text \<open>The demo airport with its first flight in the air.\<close>

definition airborne_heap :: Heap where
  "airborne_heap = put_flight 0 (f1\<lparr>Flight.status := AIRBORNE\<rparr>) demo_heap"

text \<open>A schedule that holds the two demo flights under their ids.\<close>

definition demo_schedule :: Schedule where
  "demo_schedule = \<lparr>Schedule.flights = [(1, 0), (2, 1)]\<rparr>"

text \<open>The first demo gate, occupied by flight 1.\<close>

definition occupied_gate :: Gate where
  "occupied_gate = gate_A1\<lparr>Gate.occupied_by := Some 1\<rparr>"

text \<open>
  The states of \<^verbatim>\<open>run_demo\<close> (lines 415-432): the store after the gate
  assignment for the first flight, after boarding is complete, and after the runway
  assignment, just before the departure.
\<close>

definition demo_gate_heap :: Heap where
  "demo_gate_heap = snd (Airport_assign_gate build_demo_airport 1 demo_heap)"

definition demo_boarded_heap :: Heap where
  "demo_boarded_heap =
     put_flight 0
       (snd (Flight_board_passengers
               (snd (Flight_board_passengers
                       (Flight_set_status (flight_at demo_gate_heap 0) BOARDING) 100))
               80))
       demo_gate_heap"

definition demo_taxi_heap :: Heap where
  "demo_taxi_heap =
     snd (Airport_assign_runway_for_departure build_demo_airport 1 demo_boarded_heap)"

text \<open>
  The demo airport after one and after two gate assignments for the second flight: the
  flight first holds gate A1, then its reference names gate A2 and both gates are occupied.
\<close>

definition held_heap :: Heap where
  "held_heap = snd (Airport_assign_gate build_demo_airport 2 demo_heap)"

definition full_heap :: Heap where
  "full_heap = snd (Airport_assign_gate build_demo_airport 2 held_heap)"

text \<open>
  The demo airport with its first flight still in status BOARDING although every seat is
  taken, as after \<^verbatim>\<open>set_status(BOARDING)\<close> on a full flight.
\<close>

definition boarding_full_heap :: Heap where
  "boarding_full_heap =
     put_flight 0 (f1\<lparr>Flight.status := BOARDING, Flight.passengers_checked_in := 180\<rparr>) demo_heap"

text \<open>
  The demo airport with a first flight that was created with a gate reference that names
  no gate of the airport (\<^verbatim>\<open>Flight(..., gate_id=99)\<close>), after the runway assignment
  for it.
\<close>

definition stale_gate_heap :: Heap where
  "stale_gate_heap =
     snd (Airport_assign_runway_for_departure build_demo_airport 1
            (put_flight 0 (f1\<lparr>Flight.gate_id := Some 99\<rparr>) demo_heap))"

text \<open>The demo run just before the departure, with the status set back to READY.\<close>

definition ready_runway_heap :: Heap where
  "ready_runway_heap =
     put_flight 0 (Flight_set_status (flight_at demo_taxi_heap 0) READY) demo_taxi_heap"

subsection \<open>An invariant of gate release\<close>

text \<open>
  What a call of \<^verbatim>\<open>release_gate\<close> for the flight preserves once the flight's gate
  reference no longer names the gate \<open>G\<close>: the ids, the gate \<open>G\<close> itself, and that the
  reference is unset or names a gate with the id \<open>i\<close>, which is not the id of \<open>G\<close>.
\<close>

definition leaked :: "Heap \<Rightarrow> ref \<Rightarrow> ref \<Rightarrow> int \<Rightarrow> Heap \<Rightarrow> bool" where
  "leaked h fl G i s \<longleftrightarrow>
     (\<forall>f. Flight.id (flight_at s f) = Flight.id (flight_at h f))
     \<and> (\<forall>g. Gate.id (gate_at s g) = Gate.id (gate_at h g))
     \<and> gate_at s G = gate_at h G
     \<and> (Flight.gate_id (flight_at s fl) = None \<or> Flight.gate_id (flight_at s fl) = Some i)"

section \<open>Properties\<close>

subsection \<open>The store\<close>

lemma put_gate_simps [simp]:
  "gate_at (put_gate g v h) = (gate_at h)(g := v)"
  "runway_at (put_gate g v h) = runway_at h"
  "flight_at (put_gate g v h) = flight_at h"
  by (simp_all add: put_gate_def)

lemma put_runway_simps [simp]:
  "gate_at (put_runway r v h) = gate_at h"
  "runway_at (put_runway r v h) = (runway_at h)(r := v)"
  "flight_at (put_runway r v h) = flight_at h"
  by (simp_all add: put_runway_def)

lemma put_flight_simps [simp]:
  "gate_at (put_flight f v h) = gate_at h"
  "runway_at (put_flight f v h) = runway_at h"
  "flight_at (put_flight f v h) = (flight_at h)(f := v)"
  by (simp_all add: put_flight_def)

lemma demo_heap_simps [simp]:
  "gate_at demo_heap 0 = gate_A1" "gate_at demo_heap (Suc 0) = gate_A2"
  "runway_at demo_heap 0 = runway_09L" "runway_at demo_heap (Suc 0) = runway_09R"
  "flight_at demo_heap 0 = f1" "flight_at demo_heap (Suc 0) = f2"
  by (simp_all add: demo_heap_def)

lemma build_demo_airport_simps [simp]:
  "Airport.gates build_demo_airport = [0, 1]"
  "Airport.runways build_demo_airport = [0, 1]"
  "Airport.flights build_demo_airport = [0, 1]"
  by (simp_all add: build_demo_airport_def Airport_add_gate_def Airport_add_runway_def
      Airport_add_flight_def)

lemma find_flight_demo [simp]:
  "Airport_find_flight build_demo_airport 1 demo_heap = Inr 0"
  "Airport_find_flight build_demo_airport 2 demo_heap = Inr 1"
  by (simp_all add: Airport_find_flight_def f1_def f2_def)

subsection \<open>Runway\<close>

lemma find_available_is_FREE:
  assumes "List.find (\<lambda>r. Runway_is_available (runway_at h r)) rs = Some sel"
  shows "Runway.status (runway_at h sel) = FREE"
  using assms by (auto simp: find_Some_iff Runway_is_available_def)

text \<open>
  Claim C6. For a runway in any status, MAINTENANCE included, \<^verbatim>\<open>release()\<close> clears
  \<^verbatim>\<open>current_flight\<close> and sets the status to FREE; the other fields keep their values.
\<close>

theorem Runway_release_forces_FREE:
  "Runway.current_flight (Runway_release r) = None
   \<and> Runway.status (Runway_release r) = FREE
   \<and> Runway.name (Runway_release r) = Runway.name r
   \<and> Runway.length_m (Runway_release r) = Runway.length_m r
   \<and> Runway.id (Runway_release r) = Runway.id r"
  by (simp add: Runway_release_def)

text \<open>
  Claim C5. For a runway that satisfies the invariant (status IN_USE exactly when
  \<^verbatim>\<open>current_flight\<close> is set), a successful \<^verbatim>\<open>occupy\<close> and a \<^verbatim>\<open>release\<close> leave a
  runway that satisfies it. A runway in MAINTENANCE is not available, whatever its
  \<^verbatim>\<open>current_flight\<close>, and the availability search of
  \<^verbatim>\<open>assign_runway_for_departure\<close> neither returns nor changes it.
\<close>

theorem runway_invariant_preserved:
  "(runway_inv r \<longrightarrow> Runway_occupy r flight_id = (Inr (), r') \<longrightarrow> runway_inv r')
   \<and> (runway_inv r \<longrightarrow> runway_inv (Runway_release r))
   \<and> (Runway.status r = MAINTENANCE \<longrightarrow> \<not> Runway_is_available r)
   \<and> (Runway.status (runway_at h m) = MAINTENANCE \<longrightarrow>
        fst (Airport_assign_runway_for_departure a fid h) \<noteq> Inr m
        \<and> runway_at (snd (Airport_assign_runway_for_departure a fid h)) m = runway_at h m)"
proof (intro conjI impI)
  assume "runway_inv r" and "Runway_occupy r flight_id = (Inr (), r')"
  then show "runway_inv r'"
    by (auto simp: Runway_occupy_def runway_inv_def split: if_splits)
next
  show "runway_inv (Runway_release r)"
    by (simp add: Runway_release_def runway_inv_def)
next
  assume "Runway.status r = MAINTENANCE"
  then show "\<not> Runway_is_available r"
    by (simp add: Runway_is_available_def)
next
  assume m: "Runway.status (runway_at h m) = MAINTENANCE"
  show "fst (Airport_assign_runway_for_departure a fid h) \<noteq> Inr m"
    using m find_available_is_FREE [of h "Airport.runways a" m]
    by (auto simp: Airport_assign_runway_for_departure_def Runway_occupy_def Let_def
        split: sum.splits option.splits prod.splits if_splits)
  show "runway_at (snd (Airport_assign_runway_for_departure a fid h)) m = runway_at h m"
    using m find_available_is_FREE [of h "Airport.runways a"]
    by (auto simp: Airport_assign_runway_for_departure_def Runway_occupy_def Let_def
        split: sum.splits option.splits prod.splits if_splits)
qed

theorem runway_invariant_preserved_witness:
  "runway_inv runway_09L
   \<and> Runway_occupy runway_09L 1
       = (Inr (), runway_09L\<lparr>Runway.current_flight := Some 1, Runway.status := IN_USE\<rparr>)
   \<and> runway_inv (runway_09L\<lparr>Runway.current_flight := Some 1, Runway.status := IN_USE\<rparr>)
   \<and> runway_inv (Runway_release runway_09L)
   \<and> Runway.status (runway_at maintenance_heap 0) = MAINTENANCE
   \<and> \<not> Runway_is_available (runway_at maintenance_heap 0)
   \<and> fst (Airport_assign_runway_for_departure build_demo_airport 1 maintenance_heap) = Inr 1
   \<and> runway_at (snd (Airport_assign_runway_for_departure build_demo_airport 1 maintenance_heap)) 0
       = runway_at maintenance_heap 0"
proof -
  have inv: "runway_inv runway_09L"
    by (simp add: runway_inv_def runway_09L_def)
  have occ: "Runway_occupy runway_09L 1
      = (Inr (), runway_09L\<lparr>Runway.current_flight := Some 1, Runway.status := IN_USE\<rparr>)"
    by (simp add: Runway_occupy_def Runway_is_available_def runway_09L_def)
  have maint: "Runway.status (runway_at maintenance_heap 0) = MAINTENANCE"
    by (simp add: maintenance_heap_def)
  have ff: "Airport_find_flight build_demo_airport 1 maintenance_heap = Inr 0"
    by (simp add: Airport_find_flight_def maintenance_heap_def f1_def)
  have sel: "fst (Airport_assign_runway_for_departure build_demo_airport 1 maintenance_heap) = Inr 1"
    by (simp add: Airport_assign_runway_for_departure_def ff Let_def)
       (simp add: maintenance_heap_def Runway_is_available_def Runway_occupy_def
          runway_09L_def runway_09R_def)
  from runway_invariant_preserved
         [of runway_09L 1 "runway_09L\<lparr>Runway.current_flight := Some 1, Runway.status := IN_USE\<rparr>"
             maintenance_heap 0 build_demo_airport 1]
       runway_invariant_preserved [of "runway_at maintenance_heap 0"]
       inv occ maint sel
  show ?thesis by simp
qed

subsection \<open>Arrival\<close>

text \<open>
  Claim C7. For a flight of the airport whose status is not AIRBORNE, \<^verbatim>\<open>arrive\<close>
  raises (the \<^verbatim>\<open>ValueError\<close> "Flug nicht in der Luft.", which the specification
  names InvalidStateError) and leaves the store, so also the flight's status, as it was.
  When the status is AIRBORNE the call returns and the status is LANDED.
\<close>

theorem arrive_requires_AIRBORNE:
  assumes "Airport_find_flight a fid h = Inr fl"
  shows "(Flight.status (flight_at h fl) \<noteq> AIRBORNE \<longrightarrow>
            Airport_arrive a fid h = (Inl (ValueError ''Flug nicht in der Luft.''), h))
       \<and> (Flight.status (flight_at h fl) = AIRBORNE \<longrightarrow>
            fst (Airport_arrive a fid h) = Inr ()
            \<and> Flight.status (flight_at (snd (Airport_arrive a fid h)) fl) = LANDED)"
  using assms by (simp add: Airport_arrive_def Flight_set_status_def)

theorem arrive_requires_AIRBORNE_witness:
  "Airport_find_flight build_demo_airport 1 demo_heap = Inr 0
   \<and> Flight.status (flight_at demo_heap 0) = PLANNED
   \<and> Airport_arrive build_demo_airport 1 demo_heap
       = (Inl (ValueError ''Flug nicht in der Luft.''), demo_heap)
   \<and> Airport_find_flight build_demo_airport 1 airborne_heap = Inr 0
   \<and> Flight.status (flight_at airborne_heap 0) = AIRBORNE
   \<and> fst (Airport_arrive build_demo_airport 1 airborne_heap) = Inr ()
   \<and> Flight.status (flight_at (snd (Airport_arrive build_demo_airport 1 airborne_heap)) 0) = LANDED"
proof -
  have ff: "Airport_find_flight build_demo_airport 1 airborne_heap = Inr 0"
    by (simp add: Airport_find_flight_def airborne_heap_def f1_def)
  have st: "Flight.status (flight_at demo_heap 0) = PLANNED"
    by (simp add: f1_def)
  have st2: "Flight.status (flight_at airborne_heap 0) = AIRBORNE"
    by (simp add: airborne_heap_def)
  from arrive_requires_AIRBORNE [of build_demo_airport 1 demo_heap 0]
       arrive_requires_AIRBORNE [OF ff] st st2 ff
  show ?thesis by simp
qed

subsection \<open>Schedule\<close>

text \<open>
  Claim C8. When the schedule already has an entry under the id of the flight passed to
  \<^verbatim>\<open>add_flight\<close>, the call raises \<^verbatim>\<open>SchedulingError\<close> (the specification's
  DuplicateFlightError) and the schedule, with the original entry for that id, is unchanged.
\<close>

theorem add_flight_duplicate_id:
  assumes "Flight.id (flight_at h flight) \<in> fst ` set (Schedule.flights s)"
  shows "Schedule_add_flight s flight h
           = (Inl (SchedulingError ''Flug-ID bereits vorhanden.''), s)"
  using assms by (simp add: Schedule_add_flight_def)

theorem add_flight_duplicate_id_witness:
  "Flight.id (flight_at demo_heap 0) \<in> fst ` set (Schedule.flights demo_schedule)
   \<and> Schedule_add_flight demo_schedule 0 demo_heap
       = (Inl (SchedulingError ''Flug-ID bereits vorhanden.''), demo_schedule)"
proof -
  have mem: "Flight.id (flight_at demo_heap 0) \<in> fst ` set (Schedule.flights demo_schedule)"
    by (simp add: demo_schedule_def f1_def)
  from add_flight_duplicate_id [OF mem] mem show ?thesis by simp
qed

subsection \<open>The demo run\<close>

lemma demo_gate_heap_eq:
  "demo_gate_heap
     = put_flight 0 (f1\<lparr>Flight.gate_id := Some 1\<rparr>)
         (put_gate 0 (gate_A1\<lparr>Gate.occupied_by := Some 1\<rparr>) demo_heap)"
  by (simp add: demo_gate_heap_def Airport_assign_gate_def Gate_is_free_def Gate_assign_def
      gate_A1_def Let_def)

lemma demo_boarded_heap_eq:
  "demo_boarded_heap
     = put_flight 0
         (f1\<lparr>Flight.gate_id := Some 1, Flight.status := READY,
             Flight.passengers_checked_in := 180\<rparr>)
         demo_gate_heap"
  by (simp add: demo_boarded_heap_def demo_gate_heap_eq Flight_board_passengers_def
      Flight_set_status_def f1_def a1_def Let_def)

lemma demo_boarded_heap_flight:
  "Airport_find_flight build_demo_airport 1 demo_boarded_heap = Inr 0"
  "flight_at demo_boarded_heap 0
     = f1\<lparr>Flight.gate_id := Some 1, Flight.status := READY,
          Flight.passengers_checked_in := 180\<rparr>"
  by (simp_all add: demo_boarded_heap_eq Airport_find_flight_def f1_def)

subsection \<open>Boarding\<close>

text \<open>
  Claim C2, as the code has it. For a flight on a passenger aircraft in status PLANNED or
  BOARDING, \<^verbatim>\<open>board_passengers(count)\<close> raises \<^verbatim>\<open>CapacityExceededError\<close> and
  leaves the flight as it was when \<^verbatim>\<open>passengers_checked_in + count\<close> exceeds the
  capacity; otherwise it adds \<^verbatim>\<open>count\<close> and the status afterwards is READY exactly when
  the new total equals the capacity (and is the old status otherwise). With 30 rows of 6
  seats and nobody checked in, boarding 100 and then 80 gives 180 checked in and status
  READY; boarding 1 more then raises the \<^verbatim>\<open>ValueError\<close> of the status check, which
  precedes the capacity check, and leaves the flight as it was.
\<close>

theorem board_passengers_capacity:
  assumes "Flight.aircraft f = PassengerAircraft b rows per_row fuel cons"
    and "Flight.status f \<in> {PLANNED, BOARDING}"
  shows "(Flight.passengers_checked_in f + count > rows * per_row \<longrightarrow>
            Flight_board_passengers f count
              = (Inl (CapacityExceededError
                       (''Kapazit'' @ [CHR 0xE4] @ ''t '' @ [CHR 0xFC] @ ''berschritten.'')), f))
       \<and> (Flight.passengers_checked_in f + count \<le> rows * per_row \<longrightarrow>
            fst (Flight_board_passengers f count) = Inr ()
            \<and> Flight.passengers_checked_in (snd (Flight_board_passengers f count))
                = Flight.passengers_checked_in f + count
            \<and> (Flight.status (snd (Flight_board_passengers f count)) = READY
                 \<longleftrightarrow> Flight.passengers_checked_in f + count = rows * per_row)
            \<and> (Flight.passengers_checked_in f + count \<noteq> rows * per_row \<longrightarrow>
                 Flight.status (snd (Flight_board_passengers f count)) = Flight.status f))
       \<and> (rows = 30 \<and> per_row = 6 \<and> Flight.passengers_checked_in f = 0 \<longrightarrow>
            (let f' = snd (Flight_board_passengers f 100);
                 f'' = snd (Flight_board_passengers f' 80)
             in fst (Flight_board_passengers f 100) = Inr ()
                \<and> fst (Flight_board_passengers f' 80) = Inr ()
                \<and> Flight.passengers_checked_in f'' = 180
                \<and> Flight.status f'' = READY
                \<and> Flight_board_passengers f'' 1
                    = (Inl (ValueError (''Boarding nicht m'' @ [CHR 0xF6] @ ''glich im Status READY'')),
                       f'')))"
  using assms by (auto simp: Flight_board_passengers_def Let_def)

theorem board_passengers_capacity_witness:
  "Flight.aircraft f1 = a1
   \<and> Flight.status f1 = PLANNED
   \<and> Flight_board_passengers f1 181
       = (Inl (CapacityExceededError
                (''Kapazit'' @ [CHR 0xE4] @ ''t '' @ [CHR 0xFC] @ ''berschritten.'')), f1)
   \<and> fst (Flight_board_passengers f1 100) = Inr ()
   \<and> Flight.passengers_checked_in (snd (Flight_board_passengers f1 100)) = 100
   \<and> Flight.status (snd (Flight_board_passengers f1 100)) = PLANNED
   \<and> Flight.status (snd (Flight_board_passengers f1 180)) = READY
   \<and> Flight.passengers_checked_in
        (snd (Flight_board_passengers (snd (Flight_board_passengers f1 100)) 80)) = 180
   \<and> Flight.status
        (snd (Flight_board_passengers (snd (Flight_board_passengers f1 100)) 80)) = READY
   \<and> fst (Flight_board_passengers
             (snd (Flight_board_passengers (snd (Flight_board_passengers f1 100)) 80)) 1)
       = Inl (ValueError (''Boarding nicht m'' @ [CHR 0xF6] @ ''glich im Status READY''))"
proof -
  have ac: "Flight.aircraft f1
      = PassengerAircraft
          \<lparr>model = ''A320neo'', empty_weight_kg = Finite 43000,
           max_takeoff_weight_kg = Finite 79000, engine_type = JET,
           registration = ''D-AIAB'', AircraftBase.id = 1\<rparr>
          30 6 (Finite 19000) (Finite 24)"
    by (simp add: f1_def a1_def)
  have st: "Flight.status f1 \<in> {PLANNED, BOARDING}" "Flight.status f1 = PLANNED"
    by (simp_all add: f1_def)
  have ci: "Flight.passengers_checked_in f1 = 0"
    by (simp add: f1_def)
  from board_passengers_capacity [OF ac st(1), of 181]
       board_passengers_capacity [OF ac st(1), of 100]
       board_passengers_capacity [OF ac st(1), of 180]
       ac st ci
  show ?thesis by (simp add: Let_def a1_def f1_def)
qed

text \<open>
  The claim as stated fails on the demo flight: after boarding 100 and 80 the flight is
  READY, and boarding 1 more raises \<^verbatim>\<open>ValueError\<close>, not \<^verbatim>\<open>CapacityExceededError\<close>.
\<close>

theorem board_after_full_counterexample:
  "fst (Flight_board_passengers
          (snd (Flight_board_passengers (snd (Flight_board_passengers f1 100)) 80)) 1)
     = Inl (ValueError (''Boarding nicht m'' @ [CHR 0xF6] @ ''glich im Status READY''))
   \<and> fst (Flight_board_passengers
             (snd (Flight_board_passengers (snd (Flight_board_passengers f1 100)) 80)) 1)
       \<noteq> Inl (CapacityExceededError
                (''Kapazit'' @ [CHR 0xE4] @ ''t '' @ [CHR 0xFC] @ ''berschritten.''))"
  by (simp add: Flight_board_passengers_def Let_def f1_def a1_def)

subsection \<open>The errors of the core operations\<close>

text \<open>
  Claim C3, as the code has it. Each of these failures raises Python's built-in
  \<^verbatim>\<open>ValueError\<close>, before any assignment, so the object or the store is as it was:
  \<^verbatim>\<open>Gate.assign\<close> on an occupied gate, \<^verbatim>\<open>Runway.occupy\<close> on a runway that is not
  available, \<^verbatim>\<open>board_passengers\<close> on an aircraft that is not a passenger aircraft or
  from a status other than PLANNED and BOARDING, \<^verbatim>\<open>depart\<close> from a status other than
  READY and TAXI or without a runway reference, \<^verbatim>\<open>arrive\<close> from a status other than
  AIRBORNE. The class is the same for all of them; the messages differ pairwise.
\<close>

theorem core_failures_raise_ValueError:
  "(\<not> Gate_is_free g \<longrightarrow>
      Gate_assign g fid = (Inl (ValueError (''Gate '' @ Gate.name g @ '' ist belegt.'')), g))
   \<and> (\<not> Runway_is_available r \<longrightarrow>
      Runway_occupy r fid
        = (Inl (ValueError (''Piste '' @ Runway.name r @ '' nicht verf'' @ [CHR 0xFC] @ ''gbar.'')), r))
   \<and> (\<not> is_PassengerAircraft (Flight.aircraft f) \<longrightarrow>
      Flight_board_passengers f n
        = (Inl (ValueError (''Nur Passagiermaschinen k'' @ [CHR 0xF6] @ ''nnen Passagiere boarden.'')), f))
   \<and> (is_PassengerAircraft (Flight.aircraft f) \<and> Flight.status f \<notin> {PLANNED, BOARDING} \<longrightarrow>
      Flight_board_passengers f n
        = (Inl (ValueError (''Boarding nicht m'' @ [CHR 0xF6] @ ''glich im Status ''
                  @ status_name (Flight.status f))), f))
   \<and> (Airport_find_flight a fid h = Inr fl \<and> Flight.status (flight_at h fl) \<notin> {READY, TAXI} \<longrightarrow>
      Airport_depart a fid h = (Inl (ValueError ''Flug nicht abflugbereit.''), h))
   \<and> (Airport_find_flight a fid h = Inr fl \<and> Flight.status (flight_at h fl) \<in> {READY, TAXI}
        \<and> Flight.runway_id (flight_at h fl) = None \<longrightarrow>
      Airport_depart a fid h = (Inl (ValueError ''Keine Piste zugewiesen.''), h))
   \<and> (Airport_find_flight a fid h = Inr fl \<and> Flight.status (flight_at h fl) \<noteq> AIRBORNE \<longrightarrow>
      Airport_arrive a fid h = (Inl (ValueError ''Flug nicht in der Luft.''), h))
   \<and> distinct
        [''Gate '' @ Gate.name g @ '' ist belegt.'',
         ''Piste '' @ Runway.name r @ '' nicht verf'' @ [CHR 0xFC] @ ''gbar.'',
         ''Nur Passagiermaschinen k'' @ [CHR 0xF6] @ ''nnen Passagiere boarden.'',
         ''Boarding nicht m'' @ [CHR 0xF6] @ ''glich im Status '' @ status_name (Flight.status f),
         ''Flug nicht abflugbereit.'',
         ''Keine Piste zugewiesen.'',
         ''Flug nicht in der Luft.'']"
proof (intro conjI impI)
  assume "\<not> Gate_is_free g"
  then show "Gate_assign g fid = (Inl (ValueError (''Gate '' @ Gate.name g @ '' ist belegt.'')), g)"
    by (simp add: Gate_assign_def)
next
  assume "\<not> Runway_is_available r"
  then show "Runway_occupy r fid
      = (Inl (ValueError (''Piste '' @ Runway.name r @ '' nicht verf'' @ [CHR 0xFC] @ ''gbar.'')), r)"
    by (simp add: Runway_occupy_def)
next
  assume "\<not> is_PassengerAircraft (Flight.aircraft f)"
  then show "Flight_board_passengers f n
      = (Inl (ValueError (''Nur Passagiermaschinen k'' @ [CHR 0xF6] @ ''nnen Passagiere boarden.'')), f)"
    by (simp add: Flight_board_passengers_def)
next
  assume "is_PassengerAircraft (Flight.aircraft f) \<and> Flight.status f \<notin> {PLANNED, BOARDING}"
  then show "Flight_board_passengers f n
      = (Inl (ValueError (''Boarding nicht m'' @ [CHR 0xF6] @ ''glich im Status ''
                @ status_name (Flight.status f))), f)"
    by (simp add: Flight_board_passengers_def)
next
  assume "Airport_find_flight a fid h = Inr fl \<and> Flight.status (flight_at h fl) \<notin> {READY, TAXI}"
  then show "Airport_depart a fid h = (Inl (ValueError ''Flug nicht abflugbereit.''), h)"
    by (simp add: Airport_depart_def)
next
  assume "Airport_find_flight a fid h = Inr fl \<and> Flight.status (flight_at h fl) \<in> {READY, TAXI}
      \<and> Flight.runway_id (flight_at h fl) = None"
  then show "Airport_depart a fid h = (Inl (ValueError ''Keine Piste zugewiesen.''), h)"
    by (auto simp: Airport_depart_def)
next
  assume "Airport_find_flight a fid h = Inr fl \<and> Flight.status (flight_at h fl) \<noteq> AIRBORNE"
  then show "Airport_arrive a fid h = (Inl (ValueError ''Flug nicht in der Luft.''), h)"
    by (simp add: Airport_arrive_def)
next
  show "distinct
        [''Gate '' @ Gate.name g @ '' ist belegt.'',
         ''Piste '' @ Runway.name r @ '' nicht verf'' @ [CHR 0xFC] @ ''gbar.'',
         ''Nur Passagiermaschinen k'' @ [CHR 0xF6] @ ''nnen Passagiere boarden.'',
         ''Boarding nicht m'' @ [CHR 0xF6] @ ''glich im Status '' @ status_name (Flight.status f),
         ''Flug nicht abflugbereit.'',
         ''Keine Piste zugewiesen.'',
         ''Flug nicht in der Luft.'']"
    by simp
qed

theorem core_failures_raise_ValueError_witness:
  "\<not> Gate_is_free occupied_gate
   \<and> Gate_assign occupied_gate 1 = (Inl (ValueError ''Gate A1 ist belegt.''), occupied_gate)
   \<and> \<not> Runway_is_available (runway_at maintenance_heap 0)
   \<and> Runway_occupy (runway_at maintenance_heap 0) 1
       = (Inl (ValueError (''Piste 09L/27R nicht verf'' @ [CHR 0xFC] @ ''gbar.'')),
          runway_at maintenance_heap 0)
   \<and> \<not> is_PassengerAircraft (Flight.aircraft f2)
   \<and> Flight_board_passengers f2 1
       = (Inl (ValueError (''Nur Passagiermaschinen k'' @ [CHR 0xF6] @ ''nnen Passagiere boarden.'')), f2)
   \<and> is_PassengerAircraft (Flight.aircraft (flight_at demo_boarded_heap 0))
   \<and> Flight.status (flight_at demo_boarded_heap 0) = READY
   \<and> Flight_board_passengers (flight_at demo_boarded_heap 0) 1
       = (Inl (ValueError (''Boarding nicht m'' @ [CHR 0xF6] @ ''glich im Status READY'')),
          flight_at demo_boarded_heap 0)
   \<and> Airport_find_flight build_demo_airport 1 demo_heap = Inr 0
   \<and> Flight.status (flight_at demo_heap 0) = PLANNED
   \<and> Airport_depart build_demo_airport 1 demo_heap
       = (Inl (ValueError ''Flug nicht abflugbereit.''), demo_heap)
   \<and> Airport_arrive build_demo_airport 1 demo_heap
       = (Inl (ValueError ''Flug nicht in der Luft.''), demo_heap)
   \<and> Airport_find_flight build_demo_airport 1 demo_boarded_heap = Inr 0
   \<and> Flight.runway_id (flight_at demo_boarded_heap 0) = None
   \<and> Airport_depart build_demo_airport 1 demo_boarded_heap
       = (Inl (ValueError ''Keine Piste zugewiesen.''), demo_boarded_heap)"
proof -
  have g: "\<not> Gate_is_free occupied_gate" "Gate.name occupied_gate = ''A1''"
    by (simp_all add: occupied_gate_def Gate_is_free_def gate_A1_def)
  have r: "\<not> Runway_is_available (runway_at maintenance_heap 0)"
      "Runway.name (runway_at maintenance_heap 0) = ''09L/27R''"
    by (simp_all add: maintenance_heap_def Runway_is_available_def runway_09L_def)
  have c: "\<not> is_PassengerAircraft (Flight.aircraft f2)"
    by (simp add: f2_def a2_def)
  have p: "is_PassengerAircraft (Flight.aircraft (flight_at demo_boarded_heap 0))"
      "Flight.status (flight_at demo_boarded_heap 0) = READY"
      "Flight.runway_id (flight_at demo_boarded_heap 0) = None"
    by (simp_all add: demo_boarded_heap_flight f1_def a1_def)
  have s: "Flight.status (flight_at demo_heap 0) = PLANNED"
    by (simp add: f1_def)
  from core_failures_raise_ValueError
         [where g = occupied_gate and fid = 1 and r = "runway_at maintenance_heap 0"
            and f = f2 and n = 1 and a = build_demo_airport and h = demo_heap and fl = 0]
       core_failures_raise_ValueError
         [where fid = 1 and f = "flight_at demo_boarded_heap 0" and n = 1
            and a = build_demo_airport and h = demo_boarded_heap and fl = 0]
       g r c p s demo_boarded_heap_flight(1)
  show ?thesis by simp
qed

text \<open>
  The claim as stated fails: an occupied gate and a runway in maintenance raise exceptions
  of one and the same class, \<^verbatim>\<open>ValueError\<close>, as do boarding a cargo flight and a
  departure from status PLANNED; the class does not tell the failures apart.
\<close>

theorem one_class_for_all_failures_counterexample:
  "map exception_class
     [projl (fst (Gate_assign occupied_gate 2)),
      projl (fst (Runway_occupy (runway_at maintenance_heap 0) 2)),
      projl (fst (Flight_board_passengers f2 1)),
      projl (fst (Flight_board_passengers
                    (snd (Flight_board_passengers (snd (Flight_board_passengers f1 100)) 80)) 1)),
      projl (fst (Airport_depart build_demo_airport 1 demo_heap)),
      projl (fst (Airport_depart build_demo_airport 1 demo_boarded_heap))]
   = [''ValueError'', ''ValueError'', ''ValueError'', ''ValueError'', ''ValueError'', ''ValueError'']
   \<and> fst (Gate_assign occupied_gate 2) = Inl (ValueError ''Gate A1 ist belegt.'')
   \<and> fst (Airport_depart build_demo_airport 1 demo_boarded_heap)
       = Inl (ValueError ''Keine Piste zugewiesen.'')"
  by (simp add: occupied_gate_def Gate_assign_def Gate_is_free_def gate_A1_def
      Runway_occupy_def Runway_is_available_def maintenance_heap_def
      Flight_board_passengers_def f2_def a2_def f1_def a1_def Let_def
      Airport_depart_def demo_boarded_heap_flight)

subsection \<open>Gate assignment\<close>

lemma find_first:
  "xs = pre @ g # post \<Longrightarrow> \<forall>x\<in>set pre. \<not> P x \<Longrightarrow> P g \<Longrightarrow> List.find P xs = Some g"
  by (induction pre arbitrary: xs) auto

lemma held_heap_eq:
  "held_heap
     = put_flight 1 (f2\<lparr>Flight.gate_id := Some 1\<rparr>)
         (put_gate 0 (gate_A1\<lparr>Gate.occupied_by := Some 2\<rparr>) demo_heap)"
  by (simp add: held_heap_def Airport_assign_gate_def Gate_is_free_def Gate_assign_def
      gate_A1_def Let_def)

lemma find_flight_held_heap:
  "Airport_find_flight build_demo_airport 2 held_heap = Inr 1"
  "Airport_find_flight build_demo_airport 1 held_heap = Inr 0"
  by (simp_all add: held_heap_eq Airport_find_flight_def f1_def f2_def)

lemma full_heap_eq:
  "full_heap
     = put_flight 1 (f2\<lparr>Flight.gate_id := Some 2\<rparr>)
         (put_gate 1 (gate_A2\<lparr>Gate.occupied_by := Some 2\<rparr>) held_heap)"
  by (simp add: full_heap_def Airport_assign_gate_def find_flight_held_heap Let_def)
     (simp add: held_heap_eq Gate_is_free_def Gate_assign_def gate_A1_def gate_A2_def)

lemma find_flight_full_heap:
  "Airport_find_flight build_demo_airport 1 full_heap = Inr 0"
  "Airport_find_flight build_demo_airport 2 full_heap = Inr 1"
  by (simp_all add: full_heap_eq held_heap_eq Airport_find_flight_def f1_def f2_def)

text \<open>
  Claim C4. For a flight of the airport, \<^verbatim>\<open>assign_gate\<close> returns the first gate in
  registration order that is free (every gate registered before it is occupied), marks it
  as occupied by the flight, records its id on the flight and leaves every other gate as it
  was. When no gate of the airport is free, it raises \<^verbatim>\<open>GateNotAvailableError\<close> and the
  store is unchanged, so the flight's gate reference is what it was.
\<close>

theorem assign_gate_first_fit:
  assumes "Airport_find_flight a fid h = Inr fl"
  shows "(Airport.gates a = pre @ g # post
            \<and> (\<forall>x\<in>set pre. \<not> Gate_is_free (gate_at h x)) \<and> Gate_is_free (gate_at h g) \<longrightarrow>
          fst (Airport_assign_gate a fid h) = Inr g
          \<and> Gate.occupied_by (gate_at (snd (Airport_assign_gate a fid h)) g) = Some fid
          \<and> Flight.gate_id (flight_at (snd (Airport_assign_gate a fid h)) fl)
              = Some (Gate.id (gate_at h g))
          \<and> (\<forall>x. x \<noteq> g \<longrightarrow> gate_at (snd (Airport_assign_gate a fid h)) x = gate_at h x))
       \<and> ((\<forall>x\<in>set (Airport.gates a). \<not> Gate_is_free (gate_at h x)) \<longrightarrow>
          Airport_assign_gate a fid h = (Inl (GateNotAvailableError ''Kein Gate frei.''), h)
          \<and> Flight.gate_id (flight_at (snd (Airport_assign_gate a fid h)) fl)
              = Flight.gate_id (flight_at h fl))"
proof (intro conjI impI)
  assume "\<forall>x\<in>set (Airport.gates a). \<not> Gate_is_free (gate_at h x)"
  then have "List.find (\<lambda>g. Gate_is_free (gate_at h g)) (Airport.gates a) = None"
    by (simp add: find_None_iff)
  then show "Airport_assign_gate a fid h = (Inl (GateNotAvailableError ''Kein Gate frei.''), h)"
    and "Flight.gate_id (flight_at (snd (Airport_assign_gate a fid h)) fl)
              = Flight.gate_id (flight_at h fl)"
    using assms by (simp_all add: Airport_assign_gate_def)
next
  assume "Airport.gates a = pre @ g # post
      \<and> (\<forall>x\<in>set pre. \<not> Gate_is_free (gate_at h x)) \<and> Gate_is_free (gate_at h g)"
  then have found: "List.find (\<lambda>g. Gate_is_free (gate_at h g)) (Airport.gates a) = Some g"
    and free: "Gate_is_free (gate_at h g)"
    using find_first [of "Airport.gates a" pre g post "\<lambda>g. Gate_is_free (gate_at h g)"]
    by simp_all
  show "fst (Airport_assign_gate a fid h) = Inr g"
    using assms found free by (simp add: Airport_assign_gate_def Gate_assign_def Let_def)
  show "Gate.occupied_by (gate_at (snd (Airport_assign_gate a fid h)) g) = Some fid"
    using assms found free by (simp add: Airport_assign_gate_def Gate_assign_def Let_def)
  show "Flight.gate_id (flight_at (snd (Airport_assign_gate a fid h)) fl)
      = Some (Gate.id (gate_at h g))"
    using assms found free by (simp add: Airport_assign_gate_def Gate_assign_def Let_def)
  show "\<forall>x. x \<noteq> g \<longrightarrow> gate_at (snd (Airport_assign_gate a fid h)) x = gate_at h x"
    using assms found free by (simp add: Airport_assign_gate_def Gate_assign_def Let_def)
qed

theorem assign_gate_first_fit_witness:
  "Airport_find_flight build_demo_airport 1 demo_heap = Inr 0
   \<and> Airport.gates build_demo_airport = [] @ 0 # [1]
   \<and> Gate_is_free (gate_at demo_heap 0) \<and> Gate_is_free (gate_at demo_heap 1)
   \<and> Gate.name (gate_at demo_heap 0) = ''A1''
   \<and> fst (Airport_assign_gate build_demo_airport 1 demo_heap) = Inr 0
   \<and> Gate.occupied_by (gate_at (snd (Airport_assign_gate build_demo_airport 1 demo_heap)) 0) = Some 1
   \<and> Flight.gate_id (flight_at (snd (Airport_assign_gate build_demo_airport 1 demo_heap)) 0) = Some 1
   \<and> gate_at (snd (Airport_assign_gate build_demo_airport 1 demo_heap)) 1 = gate_A2
   \<and> Airport_find_flight build_demo_airport 1 full_heap = Inr 0
   \<and> \<not> Gate_is_free (gate_at full_heap 0) \<and> \<not> Gate_is_free (gate_at full_heap 1)
   \<and> Flight.gate_id (flight_at full_heap 0) = None
   \<and> Airport_assign_gate build_demo_airport 1 full_heap
       = (Inl (GateNotAvailableError ''Kein Gate frei.''), full_heap)
   \<and> Flight.gate_id (flight_at (snd (Airport_assign_gate build_demo_airport 1 full_heap)) 0) = None"
proof -
  have free: "Gate_is_free (gate_at demo_heap 0)" "Gate_is_free (gate_at demo_heap 1)"
      "Gate.name (gate_at demo_heap 0) = ''A1''" "Gate.id (gate_at demo_heap 0) = 1"
    by (simp_all add: Gate_is_free_def gate_A1_def gate_A2_def)
  have full: "\<forall>x\<in>set (Airport.gates build_demo_airport). \<not> Gate_is_free (gate_at full_heap x)"
    by (simp add: full_heap_eq held_heap_eq Gate_is_free_def)
  have unset: "Flight.gate_id (flight_at full_heap 0) = None"
    by (simp add: full_heap_eq held_heap_eq f1_def)
  from assign_gate_first_fit
         [where a = build_demo_airport and fid = 1 and h = demo_heap and fl = 0
            and pre = "[]" and g = 0 and post = "[1]"]
       assign_gate_first_fit [OF find_flight_full_heap(1)]
       free full unset find_flight_full_heap(1)
  show ?thesis by simp
qed

lemma find_flight_cong:
  assumes "\<forall>f. Flight.id (flight_at s f) = Flight.id (flight_at h f)"
  shows "Airport_find_flight a fid s = Airport_find_flight a fid h"
  using assms by (simp add: Airport_find_flight_def)

lemma release_gate_leaked:
  assumes find: "Airport_find_flight a fid h = Inr fl"
    and i: "i \<noteq> Gate.id (gate_at h G)"
    and inv: "leaked h fl G i s"
  shows "leaked h fl G i (snd (Airport_release_gate a fid s))"
proof -
  have ff: "Airport_find_flight a fid s = Inr fl"
    using find inv find_flight_cong [of s h a fid] by (simp add: leaked_def)
  show ?thesis
  proof (cases "List.find (\<lambda>g. Some (Gate.id (gate_at s g)) = Flight.gate_id (flight_at s fl))
                  (Airport.gates a)")
    case None
    then show ?thesis
      using inv ff by (simp add: Airport_release_gate_def)
  next
    case (Some g)
    show ?thesis
    proof (cases "Flight.gate_id (flight_at s fl) = None")
      case True
      then show ?thesis
        using inv ff by (simp add: Airport_release_gate_def)
    next
      case False
      with inv have ref: "Flight.gate_id (flight_at s fl) = Some i"
        by (simp add: leaked_def)
      from Some have "Some (Gate.id (gate_at s g)) = Flight.gate_id (flight_at s fl)"
        by (auto simp: find_Some_iff)
      with ref inv i have "g \<noteq> G"
        by (auto simp: leaked_def)
      then show ?thesis
        using inv ff Some False
        by (simp add: Airport_release_gate_def Let_def leaked_def Gate_release_def)
    qed
  qed
qed

lemma release_gate_leaked_iterated:
  assumes "Airport_find_flight a fid h = Inr fl"
    and "i \<noteq> Gate.id (gate_at h G)"
    and "leaked h fl G i s"
  shows "leaked h fl G i (((\<lambda>s. snd (Airport_release_gate a fid s)) ^^ n) s)"
  using assms by (induction n) (simp_all add: release_gate_leaked)

text \<open>
  Claim C10. In an airport whose gates carry ids of their own, let a flight hold the gate
  \<open>G\<close> (the gate is occupied by the flight and the flight's gate reference is its id) while a
  gate of the airport is free. A second \<^verbatim>\<open>assign_gate\<close> for the flight returns a free
  gate other than \<open>G\<close> and the flight's gate reference becomes that gate's id, which is not
  the id of \<open>G\<close>; the gate \<open>G\<close> is as it was, occupied by the flight, and it stays so
  after any number of \<^verbatim>\<open>release_gate\<close> calls for the flight.
\<close>

theorem second_assign_gate_leaks_first:
  assumes find: "Airport_find_flight a fid h = Inr fl"
    and G: "G \<in> set (Airport.gates a)"
    and occ: "Gate.occupied_by (gate_at h G) = Some fid"
    and ref: "Flight.gate_id (flight_at h fl) = Some (Gate.id (gate_at h G))"
    and free: "\<exists>g\<in>set (Airport.gates a). Gate_is_free (gate_at h g)"
    and uniq: "\<forall>g\<in>set (Airport.gates a). Gate.id (gate_at h g) = Gate.id (gate_at h G) \<longrightarrow> g = G"
  shows "\<exists>g'. g' \<in> set (Airport.gates a) \<and> g' \<noteq> G \<and> Gate_is_free (gate_at h g')
           \<and> fst (Airport_assign_gate a fid h) = Inr g'
           \<and> Flight.gate_id (flight_at (snd (Airport_assign_gate a fid h)) fl)
               = Some (Gate.id (gate_at h g'))
           \<and> Flight.gate_id (flight_at (snd (Airport_assign_gate a fid h)) fl)
               \<noteq> Some (Gate.id (gate_at h G))
           \<and> Gate.occupied_by (gate_at (snd (Airport_assign_gate a fid h)) g') = Some fid
           \<and> gate_at (snd (Airport_assign_gate a fid h)) G = gate_at h G
           \<and> Gate.occupied_by (gate_at (snd (Airport_assign_gate a fid h)) G) = Some fid
           \<and> (\<forall>n. Gate.occupied_by
                      (gate_at (((\<lambda>s. snd (Airport_release_gate a fid s)) ^^ n)
                                  (snd (Airport_assign_gate a fid h))) G) = Some fid)"
proof -
  from free obtain g' where found:
      "List.find (\<lambda>g. Gate_is_free (gate_at h g)) (Airport.gates a) = Some g'"
    by (cases "List.find (\<lambda>g. Gate_is_free (gate_at h g)) (Airport.gates a)")
       (auto simp: find_None_iff)
  then have g': "g' \<in> set (Airport.gates a)" "Gate_is_free (gate_at h g')"
    by (auto simp: find_Some_iff)
  with occ have neq: "g' \<noteq> G"
    by (auto simp: Gate_is_free_def)
  with uniq g' have idneq: "Gate.id (gate_at h g') \<noteq> Gate.id (gate_at h G)"
    by auto
  define h' where "h' = snd (Airport_assign_gate a fid h)"
  have h': "h' = put_flight fl ((flight_at h fl)\<lparr>Flight.gate_id := Some (Gate.id (gate_at h g'))\<rparr>)
                   (put_gate g' ((gate_at h g')\<lparr>Gate.occupied_by := Some fid\<rparr>) h)"
    and res: "fst (Airport_assign_gate a fid h) = Inr g'"
    using find found g'(2) by (simp_all add: h'_def Airport_assign_gate_def Gate_assign_def Let_def)
  have inv: "leaked h fl G (Gate.id (gate_at h g')) h'"
    using neq by (simp add: leaked_def h')
  have "\<forall>n. Gate.occupied_by
              (gate_at (((\<lambda>s. snd (Airport_release_gate a fid s)) ^^ n) h') G) = Some fid"
  proof
    fix n
    from release_gate_leaked_iterated [OF find idneq inv, of n]
    show "Gate.occupied_by
              (gate_at (((\<lambda>s. snd (Airport_release_gate a fid s)) ^^ n) h') G) = Some fid"
      using occ by (simp add: leaked_def)
  qed
  moreover have "Flight.gate_id (flight_at h' fl) = Some (Gate.id (gate_at h g'))"
      "Gate.occupied_by (gate_at h' g') = Some fid" "gate_at h' G = gate_at h G"
    using neq by (simp_all add: h')
  ultimately show ?thesis
    using g' neq idneq res occ unfolding h'_def [symmetric] by auto
qed

theorem second_assign_gate_leaks_first_witness:
  "Airport_find_flight build_demo_airport 2 held_heap = Inr 1
   \<and> Gate.occupied_by (gate_at held_heap 0) = Some 2
   \<and> Flight.gate_id (flight_at held_heap 1) = Some (Gate.id (gate_at held_heap 0))
   \<and> Gate_is_free (gate_at held_heap 1)
   \<and> Gate.id (gate_at held_heap 0) = 1 \<and> Gate.id (gate_at held_heap 1) = 2
   \<and> fst (Airport_assign_gate build_demo_airport 2 held_heap) = Inr 1
   \<and> Flight.gate_id (flight_at full_heap 1) = Some 2
   \<and> Gate.occupied_by (gate_at full_heap 0) = Some 2
   \<and> Gate.occupied_by
        (gate_at (snd (Airport_release_gate build_demo_airport 2 full_heap)) 0) = Some 2
   \<and> Gate.occupied_by
        (gate_at (snd (Airport_release_gate build_demo_airport 2
                         (snd (Airport_release_gate build_demo_airport 2 full_heap)))) 0) = Some 2"
proof -
  have G: "(0::nat) \<in> set (Airport.gates build_demo_airport)"
    by simp
  have occ: "Gate.occupied_by (gate_at held_heap 0) = Some 2"
    by (simp add: held_heap_eq)
  have ref: "Flight.gate_id (flight_at held_heap 1) = Some (Gate.id (gate_at held_heap 0))"
    by (simp add: held_heap_eq gate_A1_def)
  have free1: "Gate_is_free (gate_at held_heap 1)"
    by (simp add: held_heap_eq Gate_is_free_def gate_A2_def)
  then have free: "\<exists>g\<in>set (Airport.gates build_demo_airport). Gate_is_free (gate_at held_heap g)"
    by simp
  have ids: "Gate.id (gate_at held_heap 0) = 1" "Gate.id (gate_at held_heap 1) = 2"
    by (simp_all add: held_heap_eq gate_A1_def gate_A2_def)
  then have uniq: "\<forall>g\<in>set (Airport.gates build_demo_airport).
      Gate.id (gate_at held_heap g) = Gate.id (gate_at held_heap 0) \<longrightarrow> g = 0"
    by simp
  from second_assign_gate_leaks_first [OF find_flight_held_heap(1) G occ ref free uniq]
  obtain g' where g': "g' \<in> set (Airport.gates build_demo_airport)" "g' \<noteq> 0"
      "fst (Airport_assign_gate build_demo_airport 2 held_heap) = Inr g'"
      "Flight.gate_id (flight_at (snd (Airport_assign_gate build_demo_airport 2 held_heap)) 1)
         = Some (Gate.id (gate_at held_heap g'))"
      "Gate.occupied_by (gate_at (snd (Airport_assign_gate build_demo_airport 2 held_heap)) 0) = Some 2"
      "\<forall>n. Gate.occupied_by
              (gate_at (((\<lambda>s. snd (Airport_release_gate build_demo_airport 2 s)) ^^ n)
                          (snd (Airport_assign_gate build_demo_airport 2 held_heap))) 0) = Some 2"
    by blast
  from g'(1,2) have "g' = 1" by simp
  moreover from g'(6) have
    "Gate.occupied_by
       (gate_at (((\<lambda>s. snd (Airport_release_gate build_demo_airport 2 s)) ^^ 1) full_heap) 0) = Some 2"
    "Gate.occupied_by
       (gate_at (((\<lambda>s. snd (Airport_release_gate build_demo_airport 2 s)) ^^ 2) full_heap) 0) = Some 2"
    unfolding full_heap_def by blast+
  ultimately show ?thesis
    using g' occ ref free1 ids find_flight_held_heap(1)
    by (simp add: full_heap_def numeral_2_eq_2)
qed

subsection \<open>The scheduler's pass\<close>

lemma auto_ready_loop_frame:
  "gate_at (snd (auto_ready_loop fs h)) = gate_at h
   \<and> runway_at (snd (auto_ready_loop fs h)) = runway_at h
   \<and> Heap.more (snd (auto_ready_loop fs h)) = Heap.more h
   \<and> (\<forall>r. flight_at (snd (auto_ready_loop fs h)) r = flight_at h r
          \<or> (Flight.status (flight_at h r) = BOARDING
              \<and> flight_at (snd (auto_ready_loop fs h)) r
                  = (flight_at h r)\<lparr>Flight.status := READY\<rparr>))"
proof (induction fs arbitrary: h)
  case Nil
  show ?case by simp
next
  case (Cons f fs)
  show ?case
  proof (cases "Flight.status (flight_at h f) = BOARDING")
    case False
    then show ?thesis using Cons.IH [of h] by simp
  next
    case True
    show ?thesis
    proof (cases "capacity (Flight.aircraft (flight_at h f))")
      case (Inl e)
      then show ?thesis using True by (simp add: hasattr_capacity_def)
    next
      case (Inr cap)
      show ?thesis
      proof (cases "Flight.passengers_checked_in (flight_at h f) = cap")
        case False
        then show ?thesis using True Inr Cons.IH [of h] by (simp add: hasattr_capacity_def)
      next
        case full: True
        let ?h1 = "put_flight f (Flight_set_status (flight_at h f) READY) h"
        have eq: "auto_ready_loop (f # fs) h = auto_ready_loop fs ?h1"
          using True Inr full by (simp add: hasattr_capacity_def)
        show ?thesis
          unfolding eq
        proof (intro conjI allI)
          fix r
          from Cons.IH [of ?h1]
          have step: "flight_at (snd (auto_ready_loop fs ?h1)) r = flight_at ?h1 r
              \<or> (Flight.status (flight_at ?h1 r) = BOARDING
                  \<and> flight_at (snd (auto_ready_loop fs ?h1)) r
                      = (flight_at ?h1 r)\<lparr>Flight.status := READY\<rparr>)"
            by blast
          show "flight_at (snd (auto_ready_loop fs ?h1)) r = flight_at h r
              \<or> (Flight.status (flight_at h r) = BOARDING
                  \<and> flight_at (snd (auto_ready_loop fs ?h1)) r
                      = (flight_at h r)\<lparr>Flight.status := READY\<rparr>)"
          proof (cases "r = f")
            case True
            with step \<open>Flight.status (flight_at h f) = BOARDING\<close> show ?thesis
              by (simp add: Flight_set_status_def)
          next
            case False
            with step show ?thesis by simp
          qed
        qed (use Cons.IH [of ?h1] in simp_all)
      qed
    qed
  qed
qed

lemma auto_ready_loop_status:
  "Flight.status (flight_at h r) \<noteq> BOARDING \<Longrightarrow>
   flight_at (snd (auto_ready_loop fs h)) r = flight_at h r"
  using auto_ready_loop_frame [of fs h] by auto

lemma auto_ready_loop_fixpoint:
  "auto_ready_loop fs h = (res, h') \<Longrightarrow> auto_ready_loop fs h' = (res, h')"
proof (induction fs arbitrary: h)
  case Nil
  then show ?case by simp
next
  case (Cons f fs)
  have frame: "flight_at h' f = flight_at h f
      \<or> (Flight.status (flight_at h f) = BOARDING
          \<and> flight_at h' f = (flight_at h f)\<lparr>Flight.status := READY\<rparr>)"
    using auto_ready_loop_frame [of "f # fs" h] Cons.prems by (simp del: auto_ready_loop.simps)
  show ?case
  proof (cases "Flight.status (flight_at h f) = BOARDING")
    case False
    with frame have same: "flight_at h' f = flight_at h f" by auto
    from False Cons.prems have "auto_ready_loop fs h = (res, h')" by simp
    then have "auto_ready_loop fs h' = (res, h')" by (rule Cons.IH)
    then show ?thesis using False same by simp
  next
    case True
    show ?thesis
    proof (cases "capacity (Flight.aircraft (flight_at h f))")
      case (Inl e)
      with True Cons.prems have "res = Inl e" "h' = h"
        by (simp_all add: hasattr_capacity_def)
      then show ?thesis using True Inl by (simp add: hasattr_capacity_def)
    next
      case (Inr cap)
      show ?thesis
      proof (cases "Flight.passengers_checked_in (flight_at h f) = cap")
        case False
        with True Inr Cons.prems have "auto_ready_loop fs h = (res, h')"
          by (simp add: hasattr_capacity_def)
        then have ih: "auto_ready_loop fs h' = (res, h')" by (rule Cons.IH)
        from frame show ?thesis
        proof
          assume "flight_at h' f = flight_at h f"
          then show ?thesis using True Inr False ih by (simp add: hasattr_capacity_def)
        next
          assume "Flight.status (flight_at h f) = BOARDING
              \<and> flight_at h' f = (flight_at h f)\<lparr>Flight.status := READY\<rparr>"
          then show ?thesis using ih by simp
        qed
      next
        case full: True
        let ?h1 = "put_flight f (Flight_set_status (flight_at h f) READY) h"
        from True Inr full Cons.prems have run: "auto_ready_loop fs ?h1 = (res, h')"
          by (simp add: hasattr_capacity_def)
        then have ih: "auto_ready_loop fs h' = (res, h')" by (rule Cons.IH)
        have "Flight.status (flight_at ?h1 f) \<noteq> BOARDING"
          by (simp add: Flight_set_status_def)
        from auto_ready_loop_status [OF this, of fs] run
        have "Flight.status (flight_at h' f) \<noteq> BOARDING"
          by (simp add: Flight_set_status_def)
        then show ?thesis using ih by simp
      qed
    qed
  qed
qed

text \<open>
  Claim C9. Running \<^verbatim>\<open>auto_ready_if_boarded\<close> on the store that a first run left
  gives the outcome of the first run and leaves that store as it is; so every flight has
  the same status after two runs as after one.
\<close>

theorem auto_ready_if_boarded_idempotent:
  "auto_ready_if_boarded s (snd (auto_ready_if_boarded s h)) = auto_ready_if_boarded s h
   \<and> (\<forall>f. Flight.status (flight_at (snd (auto_ready_if_boarded s (snd (auto_ready_if_boarded s h)))) f)
          = Flight.status (flight_at (snd (auto_ready_if_boarded s h)) f))"
proof -
  have "auto_ready_if_boarded s (snd (auto_ready_if_boarded s h)) = auto_ready_if_boarded s h"
    unfolding auto_ready_if_boarded_def
    using auto_ready_loop_fixpoint [of "Schedule_all s" h] by (metis prod.collapse)
  then show ?thesis by simp
qed

theorem auto_ready_if_boarded_idempotent_witness:
  "Flight.status (flight_at boarding_full_heap 0) = BOARDING
   \<and> Flight.status (flight_at (snd (auto_ready_if_boarded demo_schedule boarding_full_heap)) 0) = READY
   \<and> Flight.status
        (flight_at (snd (auto_ready_if_boarded demo_schedule
                           (snd (auto_ready_if_boarded demo_schedule boarding_full_heap)))) 0) = READY"
proof -
  have once: "Flight.status (flight_at (snd (auto_ready_if_boarded demo_schedule boarding_full_heap)) 0)
      = READY"
    by (simp add: auto_ready_if_boarded_def Schedule_all_def demo_schedule_def boarding_full_heap_def
        hasattr_capacity_def Flight_set_status_def f1_def f2_def a1_def)
  from auto_ready_if_boarded_idempotent [of demo_schedule boarding_full_heap] once
  show ?thesis by (simp add: boarding_full_heap_def)
qed

subsection \<open>Departure\<close>

lemma demo_taxi_heap_eq:
  "demo_taxi_heap
     = put_flight 0
         (f1\<lparr>Flight.gate_id := Some 1, Flight.status := TAXI,
             Flight.passengers_checked_in := 180, Flight.runway_id := Some 1\<rparr>)
         (put_runway 0 (runway_09L\<lparr>Runway.current_flight := Some 1, Runway.status := IN_USE\<rparr>)
            demo_boarded_heap)"
  by (simp add: demo_taxi_heap_def Airport_assign_runway_for_departure_def
      demo_boarded_heap_flight Let_def)
     (simp add: demo_boarded_heap_eq demo_gate_heap_eq Runway_is_available_def Runway_occupy_def
        Flight_set_status_def runway_09L_def runway_09R_def put_flight_def put_runway_def f1_def)

lemma stale_gate_heap_eq:
  "stale_gate_heap
     = put_flight 0
         (f1\<lparr>Flight.gate_id := Some 99, Flight.runway_id := Some 1, Flight.status := TAXI\<rparr>)
         (put_runway 0 (runway_09L\<lparr>Runway.current_flight := Some 1, Runway.status := IN_USE\<rparr>)
            demo_heap)"
proof -
  have "Airport_find_flight build_demo_airport 1
          (put_flight 0 (f1\<lparr>Flight.gate_id := Some 99\<rparr>) demo_heap) = Inr 0"
    by (simp add: Airport_find_flight_def f1_def)
  then show ?thesis
    by (simp add: stale_gate_heap_def Airport_assign_runway_for_departure_def Let_def
        Runway_is_available_def Runway_occupy_def Flight_set_status_def runway_09L_def)
qed


lemma find_unique:
  assumes "x \<in> set xs" and "P x" and "\<forall>y\<in>set xs. P y \<longrightarrow> y = x"
  shows "List.find P xs = Some x"
proof (cases "List.find P xs")
  case None
  with assms(1,2) show ?thesis by (auto simp: find_None_iff)
next
  case (Some y)
  then have "y \<in> set xs" "P y" by (auto simp: find_Some_iff)
  with assms(3) Some show ?thesis by auto
qed

lemma release_gate_clears_reference:
  assumes find: "Airport_find_flight a fid h = Inr fl"
    and gate: "Flight.gate_id (flight_at h fl) = None
        \<or> (\<exists>g\<in>set (Airport.gates a). Some (Gate.id (gate_at h g)) = Flight.gate_id (flight_at h fl))"
  shows "fst (Airport_release_gate a fid h) = Inr ()"
    and "Flight.gate_id (flight_at (snd (Airport_release_gate a fid h)) fl) = None"
    and "runway_at (snd (Airport_release_gate a fid h)) = runway_at h"
    and "Flight.status (flight_at (snd (Airport_release_gate a fid h)) fl)
           = Flight.status (flight_at h fl)"
    and "Flight.runway_id (flight_at (snd (Airport_release_gate a fid h)) fl)
           = Flight.runway_id (flight_at h fl)"
proof -
  show "fst (Airport_release_gate a fid h) = Inr ()"
    using find by (simp add: Airport_release_gate_def Let_def split: option.splits)
  show "runway_at (snd (Airport_release_gate a fid h)) = runway_at h"
    using find by (simp add: Airport_release_gate_def Let_def split: option.splits)
  show "Flight.status (flight_at (snd (Airport_release_gate a fid h)) fl)
           = Flight.status (flight_at h fl)"
    using find by (simp add: Airport_release_gate_def Let_def split: option.splits)
  show "Flight.runway_id (flight_at (snd (Airport_release_gate a fid h)) fl)
           = Flight.runway_id (flight_at h fl)"
    using find by (simp add: Airport_release_gate_def Let_def split: option.splits)
  show "Flight.gate_id (flight_at (snd (Airport_release_gate a fid h)) fl) = None"
  proof (cases "Flight.gate_id (flight_at h fl) = None")
    case True
    then show ?thesis using find by (simp add: Airport_release_gate_def)
  next
    case False
    with gate have "List.find (\<lambda>g. Some (Gate.id (gate_at h g)) = Flight.gate_id (flight_at h fl))
        (Airport.gates a) \<noteq> None"
      by (auto simp: find_None_iff)
    then show ?thesis
      using find False by (auto simp: Airport_release_gate_def Let_def)
  qed
qed

text \<open>
  Claim C1, as the code has it. Let a flight of the airport have status READY or TAXI and a
  runway reference that names exactly one runway of the airport, and let its gate reference
  be unset or name a gate of the airport. Then \<^verbatim>\<open>depart\<close> returns, and afterwards the
  flight's status is AIRBORNE, that runway is FREE with \<^verbatim>\<open>current_flight\<close> unset, and
  the flight's runway and gate references are unset.
\<close>

theorem depart_releases_resources:
  assumes find: "Airport_find_flight a fid h = Inr fl"
    and status: "Flight.status (flight_at h fl) \<in> {READY, TAXI}"
    and held: "Flight.runway_id (flight_at h fl) = Some (Runway.id (runway_at h rw))"
    and rw: "rw \<in> set (Airport.runways a)"
    and uniq: "\<forall>r\<in>set (Airport.runways a).
                 Runway.id (runway_at h r) = Runway.id (runway_at h rw) \<longrightarrow> r = rw"
    and gate: "Flight.gate_id (flight_at h fl) = None
        \<or> (\<exists>g\<in>set (Airport.gates a). Some (Gate.id (gate_at h g)) = Flight.gate_id (flight_at h fl))"
  shows "fst (Airport_depart a fid h) = Inr ()
       \<and> Flight.status (flight_at (snd (Airport_depart a fid h)) fl) = AIRBORNE
       \<and> Runway.status (runway_at (snd (Airport_depart a fid h)) rw) = FREE
       \<and> Runway.current_flight (runway_at (snd (Airport_depart a fid h)) rw) = None
       \<and> Flight.runway_id (flight_at (snd (Airport_depart a fid h)) fl) = None
       \<and> Flight.gate_id (flight_at (snd (Airport_depart a fid h)) fl) = None"
proof -
  let ?h1 = "put_flight fl (Flight_set_status (flight_at h fl) AIRBORNE) h"
  let ?h1a = "put_runway rw (Runway_release (runway_at ?h1 rw)) ?h1"
  let ?h2 = "put_flight fl ((flight_at ?h1a fl)\<lparr>Flight.runway_id := None\<rparr>) ?h1a"
  have found: "List.find (\<lambda>r. Some (Runway.id (runway_at ?h1 r)) = Flight.runway_id (flight_at ?h1 fl))
      (Airport.runways a) = Some rw"
    using rw uniq held
    by (intro find_unique) (auto simp: Flight_set_status_def)
  have dep: "Airport_depart a fid h = Airport_release_gate a fid ?h2"
    using find status held found
    by (simp add: Airport_depart_def Let_def del: put_flight_simps put_runway_simps)
  have find2: "Airport_find_flight a fid ?h2 = Inr fl"
  proof -
    have "\<forall>f. Flight.id (flight_at ?h2 f) = Flight.id (flight_at h f)"
      by (simp add: Flight_set_status_def)
    from find_flight_cong [OF this] find show ?thesis by simp
  qed
  have gate2: "Flight.gate_id (flight_at ?h2 fl) = None
      \<or> (\<exists>g\<in>set (Airport.gates a). Some (Gate.id (gate_at ?h2 g)) = Flight.gate_id (flight_at ?h2 fl))"
    using gate by (simp add: Flight_set_status_def)
  note rel = release_gate_clears_reference [OF find2 gate2]
  have "fst (Airport_depart a fid h) = Inr ()"
    unfolding dep by (rule rel(1))
  moreover have "Flight.gate_id (flight_at (snd (Airport_depart a fid h)) fl) = None"
    unfolding dep by (rule rel(2))
  moreover have "runway_at (snd (Airport_depart a fid h)) rw = Runway_release (runway_at h rw)"
    unfolding dep rel(3) by simp
  moreover have "Flight.status (flight_at (snd (Airport_depart a fid h)) fl) = AIRBORNE"
    unfolding dep rel(4) by (simp add: Flight_set_status_def)
  moreover have "Flight.runway_id (flight_at (snd (Airport_depart a fid h)) fl) = None"
    unfolding dep rel(5) by simp
  ultimately show ?thesis
    by (simp add: Runway_release_def)
qed

theorem depart_releases_resources_witness:
  "Airport_find_flight build_demo_airport 1 demo_taxi_heap = Inr 0
   \<and> Flight.status (flight_at demo_taxi_heap 0) = TAXI
   \<and> Flight.runway_id (flight_at demo_taxi_heap 0) = Some (Runway.id (runway_at demo_taxi_heap 0))
   \<and> Flight.gate_id (flight_at demo_taxi_heap 0) = Some (Gate.id (gate_at demo_taxi_heap 0))
   \<and> Runway.status (runway_at demo_taxi_heap 0) = IN_USE
   \<and> fst (Airport_depart build_demo_airport 1 demo_taxi_heap) = Inr ()
   \<and> Flight.status (flight_at (snd (Airport_depart build_demo_airport 1 demo_taxi_heap)) 0) = AIRBORNE
   \<and> Runway.status (runway_at (snd (Airport_depart build_demo_airport 1 demo_taxi_heap)) 0) = FREE
   \<and> Runway.current_flight (runway_at (snd (Airport_depart build_demo_airport 1 demo_taxi_heap)) 0)
       = None
   \<and> Flight.runway_id (flight_at (snd (Airport_depart build_demo_airport 1 demo_taxi_heap)) 0) = None
   \<and> Flight.gate_id (flight_at (snd (Airport_depart build_demo_airport 1 demo_taxi_heap)) 0) = None
   \<and> Flight.status (flight_at ready_runway_heap 0) = READY
   \<and> fst (Airport_depart build_demo_airport 1 ready_runway_heap) = Inr ()
   \<and> Flight.status (flight_at (snd (Airport_depart build_demo_airport 1 ready_runway_heap)) 0)
       = AIRBORNE
   \<and> Flight.runway_id (flight_at (snd (Airport_depart build_demo_airport 1 ready_runway_heap)) 0)
       = None
   \<and> Flight.gate_id (flight_at (snd (Airport_depart build_demo_airport 1 ready_runway_heap)) 0)
       = None"
proof -
  have taxi: "flight_at demo_taxi_heap 0
      = f1\<lparr>Flight.gate_id := Some 1, Flight.status := TAXI,
           Flight.passengers_checked_in := 180, Flight.runway_id := Some 1\<rparr>"
      "flight_at demo_taxi_heap (Suc 0) = f2"
      "runway_at demo_taxi_heap 0
         = runway_09L\<lparr>Runway.current_flight := Some 1, Runway.status := IN_USE\<rparr>"
      "runway_at demo_taxi_heap (Suc 0) = runway_09R"
      "gate_at demo_taxi_heap 0 = gate_A1\<lparr>Gate.occupied_by := Some 1\<rparr>"
      "gate_at demo_taxi_heap (Suc 0) = gate_A2"
    by (simp_all add: demo_taxi_heap_eq demo_boarded_heap_eq demo_gate_heap_eq)
  have ff: "Airport_find_flight build_demo_airport 1 demo_taxi_heap = Inr 0"
      "Airport_find_flight build_demo_airport 1 ready_runway_heap = Inr 0"
    by (simp_all add: Airport_find_flight_def ready_runway_heap_def taxi f1_def
        Flight_set_status_def)
  have ids: "Runway.id runway_09L = 1" "Runway.id runway_09R = 2"
      "Gate.id gate_A1 = 1" "Gate.id gate_A2 = 2"
    by (simp_all add: runway_09L_def runway_09R_def gate_A1_def gate_A2_def)
  have rw: "(0::nat) \<in> set (Airport.runways build_demo_airport)"
    by simp
  have st: "Flight.status (flight_at demo_taxi_heap 0) \<in> {READY, TAXI}"
      "Flight.status (flight_at ready_runway_heap 0) \<in> {READY, TAXI}"
    by (simp_all add: taxi ready_runway_heap_def Flight_set_status_def)
  have held: "Flight.runway_id (flight_at demo_taxi_heap 0)
        = Some (Runway.id (runway_at demo_taxi_heap 0))"
      "Flight.runway_id (flight_at ready_runway_heap 0)
        = Some (Runway.id (runway_at ready_runway_heap 0))"
    by (simp_all add: taxi ids ready_runway_heap_def Flight_set_status_def)
  have uniq: "\<forall>r\<in>set (Airport.runways build_demo_airport).
        Runway.id (runway_at demo_taxi_heap r) = Runway.id (runway_at demo_taxi_heap 0) \<longrightarrow> r = 0"
      "\<forall>r\<in>set (Airport.runways build_demo_airport).
        Runway.id (runway_at ready_runway_heap r) = Runway.id (runway_at ready_runway_heap 0) \<longrightarrow> r = 0"
    by (simp_all add: taxi ids ready_runway_heap_def)
  have gate: "Flight.gate_id (flight_at demo_taxi_heap 0) = None
        \<or> (\<exists>g\<in>set (Airport.gates build_demo_airport).
              Some (Gate.id (gate_at demo_taxi_heap g)) = Flight.gate_id (flight_at demo_taxi_heap 0))"
      "Flight.gate_id (flight_at ready_runway_heap 0) = None
        \<or> (\<exists>g\<in>set (Airport.gates build_demo_airport).
              Some (Gate.id (gate_at ready_runway_heap g)) = Flight.gate_id (flight_at ready_runway_heap 0))"
    by (simp_all add: taxi ids ready_runway_heap_def Flight_set_status_def)
  from depart_releases_resources [OF ff(1) st(1) held(1) rw uniq(1) gate(1)]
       depart_releases_resources [OF ff(2) st(2) held(2) rw uniq(2) gate(2)]
       ff
  show ?thesis
    by (simp add: taxi ids) (simp add: ready_runway_heap_def Flight_set_status_def taxi)
qed

text \<open>
  The claim as stated fails when the flight's gate reference names no gate of the airport:
  the flight is in status TAXI and holds the first runway, \<^verbatim>\<open>depart\<close> returns and
  frees the runway, and the gate reference is still set afterwards.
\<close>

theorem depart_keeps_stale_gate_reference_counterexample:
  "Airport_find_flight build_demo_airport 1 stale_gate_heap = Inr 0
   \<and> Flight.status (flight_at stale_gate_heap 0) = TAXI
   \<and> Flight.runway_id (flight_at stale_gate_heap 0) = Some (Runway.id (runway_at stale_gate_heap 0))
   \<and> Runway.current_flight (runway_at stale_gate_heap 0) = Some 1
   \<and> fst (Airport_depart build_demo_airport 1 stale_gate_heap) = Inr ()
   \<and> Flight.status (flight_at (snd (Airport_depart build_demo_airport 1 stale_gate_heap)) 0) = AIRBORNE
   \<and> Runway.status (runway_at (snd (Airport_depart build_demo_airport 1 stale_gate_heap)) 0) = FREE
   \<and> Flight.gate_id (flight_at (snd (Airport_depart build_demo_airport 1 stale_gate_heap)) 0)
       = Some 99
   \<and> Flight.gate_id (flight_at (snd (Airport_depart build_demo_airport 1 stale_gate_heap)) 0)
       \<noteq> None"
proof -
  have ff: "Airport_find_flight build_demo_airport 1 stale_gate_heap = Inr 0"
    by (simp add: Airport_find_flight_def stale_gate_heap_eq f1_def)
  show ?thesis
    by (simp add: ff Airport_depart_def Let_def)
       (simp add: stale_gate_heap_eq Flight_set_status_def Runway_release_def
          runway_09L_def runway_09R_def gate_A1_def gate_A2_def f1_def
          Airport_release_gate_def Airport_find_flight_def)
qed

end
